theory Spec2Isabelle
  imports Main
begin

text \<open>
  A model of the meeting coordinator of the video meeting platform: the socket.io
  handlers of the backend (join, signaling relay, chat, status, host control, leave),
  the methods of the Meeting model they call, and the REST join and leave routes.

  Each handler is one atomic step on the server state: what other sockets do while a
  handler waits for the database is not modelled, and the database calls themselves do
  not fail. Of Mongoose's schema handling the model keeps what the handlers meet: the
  two status flags of a participant are cast to Boolean when they are assigned, \<open>save\<close>
  refuses a document with a flag that could not be cast or a participant without the
  required \<open>userId\<close>, and a flag that was unset reads as its schema default. Clock reads
  are parameters of the handlers.
\<close>

section \<open>JavaScript values and strings\<close>

text \<open>
  Event payloads are untyped JavaScript values. A payload that the client left out is
  \<open>JUndefined\<close>; reading a property of anything that is not an object gives
  \<open>JUndefined\<close>; destructuring \<open>null\<close> or \<open>undefined\<close> throws a TypeError.
  Strings are ASCII character lists: \<open>toUpperCase\<close> and \<open>trim\<close> treat the ASCII letters
  and the ASCII white space only.
\<close>

datatype jsval =
    JUndefined
  | JNull
  | JBool bool
  | JNum int
  | JStr string
  | JDate nat
  | JArr "jsval list"
  | JObj "(string \<times> jsval) list"

datatype exn = TypeError | ValidationError | Error string

definition nullish :: "jsval \<Rightarrow> bool" where
  "nullish v = (v = JUndefined \<or> v = JNull)"

fun js_get :: "jsval \<Rightarrow> string \<Rightarrow> jsval" where
  "js_get (JObj kvs) k = (case map_of kvs k of Some v \<Rightarrow> v | None \<Rightarrow> JUndefined)"
| "js_get v k = JUndefined"

definition upper_char :: "char \<Rightarrow> char" where
  "upper_char c =
     (let n = (of_char c :: nat) in if 97 \<le> n \<and> n \<le> 122 then char_of (n - 32) else c)"

definition toUpperCase :: "string \<Rightarrow> string" where
  "toUpperCase s = map upper_char s"

definition is_space :: "char \<Rightarrow> bool" where
  "is_space c = ((of_char c :: nat) \<in> {9, 10, 11, 12, 13, 32})"

definition trim :: "string \<Rightarrow> string" where
  "trim s = rev (dropWhile is_space (rev (dropWhile is_space s)))"

text \<open>\<open>Number.prototype.toString\<close> on a non-negative integer: its decimal digits.\<close>

fun toString :: "nat \<Rightarrow> string" where
  "toString n =
     (if n < 10 then [char_of (48 + n)] else toString (n div 10) @ [char_of (48 + n mod 10)])"

declare toString.simps [simp del]

text \<open>Truthiness of an optional string: \<open>null\<close>, \<open>undefined\<close> and the empty string are falsy.\<close>

definition truthy :: "string option \<Rightarrow> bool" where
  "truthy x = (case x of None \<Rightarrow> False | Some s \<Rightarrow> s \<noteq> [])"

definition opt_str :: "string option \<Rightarrow> jsval" where
  "opt_str x = (case x of None \<Rightarrow> JNull | Some s \<Rightarrow> JStr s)"

section \<open>The persisted meeting document (models/Meeting.js)\<close>

text \<open>
  The participant sub-document and the meeting document, with the fields that the join,
  status and host-control paths read or write. \<open>userId\<close> and \<open>hostId\<close> are ObjectIds,
  compared through \<open>toString()\<close>, so they are strings here. The two status flags are
  schema Booleans: a loaded entry holds \<open>true\<close>, \<open>false\<close> or \<open>null\<close> there. The collection
  is keyed by the stored (upper-case, unique) \<open>meetingId\<close> and holds each meeting as
  \<open>findOne\<close> loads it.
\<close>

record participant =
  userId :: string
  name :: string
  joinedAt :: nat
  isMuted :: jsval
  isVideoOn :: jsval
  isHost :: bool

record meeting =
  hostId :: string
  isActive :: bool
  participants :: "participant list"
  maxParticipants :: int
  requirePassword :: bool
  meetingPassword :: "string option"

type_synonym collection = "string \<rightharpoonup> meeting"

text \<open>\<open>Meeting.findOne({ meetingId: k, isActive: true })\<close>\<close>

definition findOne :: "collection \<Rightarrow> string \<Rightarrow> meeting option" where
  "findOne c k = (case c k of None \<Rightarrow> None | Some m \<Rightarrow> if isActive m then Some m else None)"

text \<open>
  \<open>addParticipant(userId, name, isHost)\<close>: the existing entry is returned when there is one;
  otherwise the capacity is checked and a new entry (schema defaults filled in) is pushed.
\<close>

definition addParticipant ::
  "meeting \<Rightarrow> string \<Rightarrow> string \<Rightarrow> bool \<Rightarrow> nat \<Rightarrow> exn + (meeting \<times> participant)" where
  "addParticipant m uid nm host now =
     (case find (\<lambda>p. userId p = uid) (participants m) of
        Some existingParticipant \<Rightarrow> Inr (m, existingParticipant)
      | None \<Rightarrow>
          if int (length (participants m)) \<ge> maxParticipants m then Inl (Error ''Meeting is full'')
          else
            (let p = \<lparr>userId = uid, name = nm, joinedAt = now, isMuted = JBool False,
                       isVideoOn = JBool True, isHost = host\<rparr>
             in Inr (m\<lparr>participants := participants m @ [p]\<rparr>, p)))"

text \<open>\<open>removeParticipant(userId)\<close>\<close>

definition removeParticipant :: "meeting \<Rightarrow> string \<Rightarrow> meeting" where
  "removeParticipant m uid = m\<lparr>participants := filter (\<lambda>p. userId p \<noteq> uid) (participants m)\<rparr>"

text \<open>
  Assigning to a Boolean path casts the value as Mongoose does: \<open>true\<close>, \<open>'true'\<close>, \<open>1\<close>,
  \<open>'1'\<close>, \<open>'yes'\<close> become \<open>true\<close>; \<open>false\<close>, \<open>'false'\<close>, \<open>0\<close>, \<open>'0'\<close>, \<open>'no'\<close> become
  \<open>false\<close>; \<open>null\<close> and \<open>undefined\<close> stay as they are; anything else is a cast error
  (\<open>None\<close>), which leaves the path as it was and makes the next \<open>save\<close> fail.
\<close>

definition castBoolean :: "jsval \<Rightarrow> jsval option" where
  "castBoolean v =
     (if v \<in> {JBool True, JStr ''true'', JNum 1, JStr ''1'', JStr ''yes''} then Some (JBool True)
      else if v \<in> {JBool False, JStr ''false'', JNum 0, JStr ''0'', JStr ''no''}
      then Some (JBool False)
      else if nullish v then Some v
      else None)"

definition set_flag :: "jsval \<Rightarrow> jsval \<Rightarrow> jsval" where
  "set_flag prior v = (case castBoolean v of Some c \<Rightarrow> c | None \<Rightarrow> prior)"

text \<open>
  \<open>save\<close> unsets a flag that was set to \<open>undefined\<close>; from then on the entry reads the
  schema default (\<open>isMuted\<close>: false, \<open>isVideoOn\<close>: true) whenever the meeting is loaded.
\<close>

definition reload :: "bool \<Rightarrow> jsval \<Rightarrow> jsval" where
  "reload dflt v = (if v = JUndefined then JBool dflt else v)"

text \<open>
  \<open>updateParticipant(userId, updates)\<close>: \<open>find\<close> calls \<open>userId.toString()\<close> on the first
  entry it looks at, which throws when the caller has no user id; on an empty list the
  callback never runs. \<open>Object.assign\<close> assigns both flags of the first matching entry,
  \<open>undefined\<close> included, through the schema's cast. The result is the document in memory,
  the entry in memory, and whether both flags could be cast.
\<close>

fun assign_first :: "string \<Rightarrow> jsval \<Rightarrow> jsval \<Rightarrow> participant list \<Rightarrow> participant list" where
  "assign_first uid mu vi [] = []"
| "assign_first uid mu vi (p # ps) =
     (if userId p = uid then p\<lparr>isMuted := mu, isVideoOn := vi\<rparr> # ps
      else p # assign_first uid mu vi ps)"

definition updateParticipant ::
  "meeting \<Rightarrow> string option \<Rightarrow> jsval \<Rightarrow> jsval \<Rightarrow>
     exn + (meeting \<times> participant option \<times> bool)" where
  "updateParticipant m uid mu vi =
     (case uid of
        None \<Rightarrow> if participants m = [] then Inr (m, None, True) else Inl TypeError
      | Some u \<Rightarrow>
          (case find (\<lambda>p. userId p = u) (participants m) of
             None \<Rightarrow> Inr (m, None, True)
           | Some p \<Rightarrow>
               (let mu' = set_flag (isMuted p) mu; vi' = set_flag (isVideoOn p) vi
                in Inr (m\<lparr>participants := assign_first u mu' vi' (participants m)\<rparr>,
                        Some (p\<lparr>isMuted := mu', isVideoOn := vi'\<rparr>),
                        castBoolean mu \<noteq> None \<and> castBoolean vi \<noteq> None))))"

text \<open>
  What \<open>meeting.save()\<close> stores after \<open>updateParticipant\<close> changed the entry \<open>p\<close>: only the
  two flags of that entry are written, an \<open>undefined\<close> one as its default.
\<close>

definition save_flags :: "meeting \<Rightarrow> participant \<Rightarrow> meeting" where
  "save_flags m p =
     m\<lparr>participants :=
         assign_first (userId p) (reload False (isMuted p)) (reload True (isVideoOn p))
           (participants m)\<rparr>"

text \<open>\<open>isUserHost(userId)\<close>: \<open>userId.toString()\<close> throws on \<open>null\<close> and \<open>undefined\<close>.\<close>

definition isUserHost :: "meeting \<Rightarrow> string option \<Rightarrow> exn + bool" where
  "isUserHost m uid = (case uid of None \<Rightarrow> Inl TypeError | Some u \<Rightarrow> Inr (hostId m = u))"

section \<open>Sockets, rooms and emitted events (socket/socketHandlers.js)\<close>

text \<open>
  A socket carries what the authentication middleware and the handlers store on it.
  \<open>sock_userId\<close> is \<open>None\<close> for a guest (\<open>null\<close> or never set); \<open>currentMeeting\<close> is
  \<open>None\<close> before the first join and after a leave. The server state is the table of
  connected sockets, the socket.io rooms (room name to member socket ids) and the
  meetings collection.
\<close>

record socket =
  sock_id :: string
  sock_userId :: "string option"
  sock_userName :: string
  isAuthenticated :: bool
  currentMeeting :: "string option"

record server =
  sockets :: "string \<rightharpoonup> socket"
  rooms :: "string \<Rightarrow> string set"
  db :: collection

text \<open>
  \<open>socket.emit\<close> goes to the socket itself, \<open>io.to(room).emit\<close> to every member of the
  room, \<open>socket.to(room).emit\<close> to every member of the room but the socket. The room is
  whatever value the client sent: a string names one room, an array names the rooms of
  its string elements, and an empty array names no room, which socket.io takes as every
  connected socket. No other value has members.
\<close>

datatype target = ToSocket string | ToRoom jsval | ToOthers jsval string

type_synonym emit = "target \<times> string \<times> jsval"

fun rooms_of :: "server \<Rightarrow> jsval list \<Rightarrow> string set" where
  "rooms_of st [] = {}"
| "rooms_of st (JStr r # vs) = rooms st r \<union> rooms_of st vs"
| "rooms_of st (v # vs) = rooms_of st vs"

fun members :: "server \<Rightarrow> jsval \<Rightarrow> string set" where
  "members st (JStr r) = rooms st r"
| "members st (JArr rs) = (if rs = [] then dom (sockets st) else rooms_of st rs)"
| "members st v = {}"

fun recipients :: "server \<Rightarrow> target \<Rightarrow> string set" where
  "recipients st (ToSocket i) = {i}"
| "recipients st (ToRoom r) = members st r"
| "recipients st (ToOthers r i) = members st r - {i}"

text \<open>
  What a handler leaves behind: the state, the events it emitted in order, and the
  exception that escaped it, if any. Effects made before a throw stay.
\<close>

record outcome =
  state :: server
  emitted :: "emit list"
  uncaught :: "exn option"

definition emit_error :: "socket \<Rightarrow> string \<Rightarrow> emit" where
  "emit_error s msg = (ToSocket (sock_id s), ''error'', JObj [(''message'', JStr msg)])"

text \<open>\<open>try { body } catch (error) { socket.emit('error', { message: msg }) }\<close>\<close>

definition try_catch :: "socket \<Rightarrow> string \<Rightarrow> outcome \<Rightarrow> outcome" where
  "try_catch s msg r =
     (case uncaught r of
        None \<Rightarrow> r
      | Some e \<Rightarrow> r\<lparr>emitted := emitted r @ [emit_error s msg], uncaught := None\<rparr>)"

definition throw :: "server \<Rightarrow> emit list \<Rightarrow> exn \<Rightarrow> outcome" where
  "throw st es e = \<lparr>state = st, emitted = es, uncaught = Some e\<rparr>"

definition done_with :: "server \<Rightarrow> emit list \<Rightarrow> outcome" where
  "done_with st es = \<lparr>state = st, emitted = es, uncaught = None\<rparr>"

subsection \<open>join-meeting\<close>

definition participant_view :: "participant \<Rightarrow> jsval" where
  "participant_view p =
     JObj [(''userId'', JStr (userId p)), (''name'', JStr (name p)), (''isMuted'', isMuted p),
           (''isVideoOn'', isVideoOn p), (''isHost'', JBool (isHost p))]"

text \<open>\<open>socket.userId || `guest-${socket.id}`\<close>\<close>

definition sender_id :: "socket \<Rightarrow> string" where
  "sender_id s =
     (case sock_userId s of
        None \<Rightarrow> ''guest-'' @ sock_id s
      | Some u \<Rightarrow> if u \<noteq> [] then u else ''guest-'' @ sock_id s)"

definition user_connected :: "socket \<Rightarrow> jsval" where
  "user_connected s =
     JObj [(''userId'', JStr (sender_id s)), (''userName'', JStr (sock_userName s)),
           (''socketId'', JStr (sock_id s)), (''isGuest'', JBool (\<not> isAuthenticated s))]"

text \<open>
  The authenticated branch: a user without an entry is pushed onto the participants and
  the meeting is saved. \<open>save\<close> rejects an entry without the required \<open>userId\<close>.
\<close>

definition auto_add :: "socket \<Rightarrow> meeting \<Rightarrow> nat \<Rightarrow> exn + (meeting \<times> bool)" where
  "auto_add s m now =
     (if isAuthenticated s then
        (if list_ex (\<lambda>p. Some (userId p) = sock_userId s) (participants m) then Inr (m, False)
         else
           (case sock_userId s of
              None \<Rightarrow> Inl ValidationError
            | Some u \<Rightarrow>
                Inr (m\<lparr>participants := participants m @
                         [\<lparr>userId = u, name = sock_userName s, joinedAt = now,
                           isMuted = JBool False, isVideoOn = JBool True, isHost = False\<rparr>]\<rparr>,
                     True)))
      else Inr (m, False))"

definition join_meeting_body :: "socket \<Rightarrow> jsval \<Rightarrow> nat \<Rightarrow> server \<Rightarrow> outcome" where
  "join_meeting_body s data now st =
     (if nullish data then throw st [] TypeError
      else
        (case js_get data ''meetingId'' of
           JStr meetingId \<Rightarrow>
             (case findOne (db st) (toUpperCase meetingId) of
                None \<Rightarrow> done_with st [emit_error s ''Meeting not found'']
              | Some m \<Rightarrow>
                  (case auto_add s m now of
                     Inl e \<Rightarrow> throw st [] e
                   | Inr (m', saved) \<Rightarrow>
                       (let st1 = st\<lparr>db := (if saved then (db st)(toUpperCase meetingId \<mapsto> m')
                                              else db st)\<rparr>;
                            st2 = st1\<lparr>rooms := (rooms st1)
                                       (meetingId := insert (sock_id s) (rooms st1 meetingId)),
                                     sockets := (sockets st1)
                                       (sock_id s \<mapsto> s\<lparr>currentMeeting := Some meetingId\<rparr>)\<rparr>;
                            e1 = (ToOthers (JStr meetingId) (sock_id s), ''user-connected'',
                                  user_connected s)
                        in (case isUserHost m' (sock_userId s) of
                              Inl e \<Rightarrow> throw st2 [e1] e
                            | Inr h \<Rightarrow>
                                done_with st2
                                  [e1,
                                   (ToSocket (sock_id s), ''meeting-joined'',
                                    JObj [(''meetingId'', JStr meetingId),
                                          (''participants'',
                                           JArr (map participant_view (participants m'))),
                                          (''isHost'', JBool h)])]))))
         | _ \<Rightarrow> throw st [] TypeError))"

definition join_meeting :: "socket \<Rightarrow> jsval \<Rightarrow> nat \<Rightarrow> server \<Rightarrow> outcome" where
  "join_meeting s data now st = try_catch s ''Failed to join meeting'' (join_meeting_body s data now st)"

subsection \<open>webrtc-offer, webrtc-answer, webrtc-ice-candidate\<close>

text \<open>
  The three signaling handlers have no \<open>try\<close> block and no membership test: they
  destructure the payload and emit to the other members of whatever room it names.
\<close>

definition webrtc_offer :: "socket \<Rightarrow> jsval \<Rightarrow> server \<Rightarrow> outcome" where
  "webrtc_offer s data st =
     (if nullish data then throw st [] TypeError
      else done_with st
             [(ToOthers (js_get data ''meetingId'') (sock_id s), ''webrtc-offer'',
               JObj [(''fromUserId'', JStr (sender_id s)),
                     (''fromUserName'', JStr (sock_userName s)),
                     (''offer'', js_get data ''offer'')])])"

definition webrtc_answer :: "socket \<Rightarrow> jsval \<Rightarrow> server \<Rightarrow> outcome" where
  "webrtc_answer s data st =
     (if nullish data then throw st [] TypeError
      else done_with st
             [(ToOthers (js_get data ''meetingId'') (sock_id s), ''webrtc-answer'',
               JObj [(''fromUserId'', JStr (sender_id s)),
                     (''answer'', js_get data ''answer'')])])"

definition webrtc_ice_candidate :: "socket \<Rightarrow> jsval \<Rightarrow> server \<Rightarrow> outcome" where
  "webrtc_ice_candidate s data st =
     (if nullish data then throw st [] TypeError
      else done_with st
             [(ToOthers (js_get data ''meetingId'') (sock_id s), ''webrtc-ice-candidate'',
               JObj [(''fromUserId'', JStr (sender_id s)),
                     (''candidate'', js_get data ''candidate'')])])"

subsection \<open>send-message\<close>

text \<open>\<open>!socket.currentMeeting || socket.currentMeeting !== meetingId\<close>\<close>

definition not_in_meeting :: "socket \<Rightarrow> jsval \<Rightarrow> bool" where
  "not_in_meeting s meetingId =
     (\<not> truthy (currentMeeting s) \<or> opt_str (currentMeeting s) \<noteq> meetingId)"

text \<open>
  \<open>now\<close> is what \<open>Date.now()\<close> returns and \<open>ts\<close> the instant of \<open>new Date()\<close>.
  \<open>message.trim()\<close> throws on anything that is not a string.
\<close>

definition chatMessage :: "socket \<Rightarrow> string \<Rightarrow> jsval \<Rightarrow> nat \<Rightarrow> nat \<Rightarrow> jsval" where
  "chatMessage s msg ty now ts =
     JObj [(''id'', JStr (toString now)), (''userId'', opt_str (sock_userId s)),
           (''userName'', JStr (sock_userName s)), (''message'', JStr (trim msg)),
           (''type'', ty), (''timestamp'', JDate ts)]"

definition send_message_body :: "socket \<Rightarrow> jsval \<Rightarrow> nat \<Rightarrow> nat \<Rightarrow> server \<Rightarrow> outcome" where
  "send_message_body s data now ts st =
     (if nullish data then throw st [] TypeError
      else
        (let meetingId = js_get data ''meetingId'';
             ty = (if js_get data ''type'' = JUndefined then JStr ''text'' else js_get data ''type'')
         in if not_in_meeting s meetingId then done_with st [emit_error s ''Not in this meeting'']
            else
              (case js_get data ''message'' of
                 JStr msg \<Rightarrow> done_with st [(ToRoom meetingId, ''new-message'', chatMessage s msg ty now ts)]
               | _ \<Rightarrow> throw st [] TypeError)))"

definition send_message :: "socket \<Rightarrow> jsval \<Rightarrow> nat \<Rightarrow> nat \<Rightarrow> server \<Rightarrow> outcome" where
  "send_message s data now ts st =
     try_catch s ''Failed to send message'' (send_message_body s data now ts st)"

subsection \<open>update-participant-status\<close>

definition status_updated :: "socket \<Rightarrow> participant \<Rightarrow> jsval" where
  "status_updated s p =
     JObj [(''userId'', opt_str (sock_userId s)), (''userName'', JStr (sock_userName s)),
           (''isMuted'', isMuted p), (''isVideoOn'', isVideoOn p)]"

definition update_participant_status_body :: "socket \<Rightarrow> jsval \<Rightarrow> server \<Rightarrow> outcome" where
  "update_participant_status_body s data st =
     (if nullish data then throw st [] TypeError
      else
        (let meetingId = js_get data ''meetingId'' in
         if not_in_meeting s meetingId then done_with st [emit_error s ''Not in this meeting'']
         else
           (case meetingId of
              JStr mid \<Rightarrow>
                (case findOne (db st) (toUpperCase mid) of
                   None \<Rightarrow> done_with st []
                 | Some m \<Rightarrow>
                     (case updateParticipant m (sock_userId s)
                             (js_get data ''isMuted'') (js_get data ''isVideoOn'') of
                        Inl e \<Rightarrow> throw st [] e
                      | Inr (m', None, valid) \<Rightarrow> done_with st []
                      | Inr (m', Some p, valid) \<Rightarrow>
                          if \<not> valid then throw st [] ValidationError
                          else
                            done_with
                              (st\<lparr>db := (db st)(toUpperCase mid \<mapsto> save_flags m' p)\<rparr>)
                              [(ToRoom meetingId, ''participant-status-updated'',
                                status_updated s p)]))
            | _ \<Rightarrow> throw st [] TypeError)))"

definition update_participant_status :: "socket \<Rightarrow> jsval \<Rightarrow> server \<Rightarrow> outcome" where
  "update_participant_status s data st =
     try_catch s ''Failed to update status'' (update_participant_status_body s data st)"

subsection \<open>mute-participant\<close>

definition mute_participant_body :: "socket \<Rightarrow> jsval \<Rightarrow> server \<Rightarrow> outcome" where
  "mute_participant_body s data st =
     (if nullish data then throw st [] TypeError
      else
        (case js_get data ''meetingId'' of
           JStr mid \<Rightarrow>
             (case findOne (db st) (toUpperCase mid) of
                None \<Rightarrow> done_with st [emit_error s ''Not authorized to mute participants'']
              | Some m \<Rightarrow>
                  (case isUserHost m (sock_userId s) of
                     Inl e \<Rightarrow> throw st [] e
                   | Inr h \<Rightarrow>
                       if \<not> h then done_with st [emit_error s ''Not authorized to mute participants'']
                       else done_with st
                              [(ToRoom (JStr mid), ''mute-request'',
                                JObj [(''targetUserId'', js_get data ''targetUserId''),
                                      (''fromHost'', JBool True)])]))
         | _ \<Rightarrow> throw st [] TypeError))"

definition mute_participant :: "socket \<Rightarrow> jsval \<Rightarrow> server \<Rightarrow> outcome" where
  "mute_participant s data st =
     try_catch s ''Failed to mute participant'' (mute_participant_body s data st)"

subsection \<open>connection, leave-meeting, disconnect\<close>

definition user_disconnected :: "socket \<Rightarrow> jsval" where
  "user_disconnected s =
     JObj [(''userId'', opt_str (sock_userId s)), (''userName'', JStr (sock_userName s))]"

text \<open>
  The middleware: a verified token of an existing user gives an authenticated socket;
  everything else gives the guest named Guest.
\<close>

definition connection :: "string \<Rightarrow> (string \<times> string) option \<Rightarrow> server \<Rightarrow> server" where
  "connection i cred st =
     st\<lparr>sockets := (sockets st)
          (i \<mapsto> (case cred of
                   Some (uid, nm) \<Rightarrow>
                     \<lparr>sock_id = i, sock_userId = Some uid, sock_userName = nm,
                      isAuthenticated = True, currentMeeting = None\<rparr>
                 | None \<Rightarrow>
                     \<lparr>sock_id = i, sock_userId = None, sock_userName = ''Guest'',
                      isAuthenticated = False, currentMeeting = None\<rparr>))\<rparr>"

definition leave_meeting :: "socket \<Rightarrow> server \<Rightarrow> outcome" where
  "leave_meeting s st =
     (case currentMeeting s of
        None \<Rightarrow> done_with st []
      | Some meetingId \<Rightarrow>
          if meetingId = [] then done_with st []
          else
            done_with
              (st\<lparr>rooms := (rooms st)(meetingId := rooms st meetingId - {sock_id s}),
                  sockets := (sockets st)(sock_id s \<mapsto> s\<lparr>currentMeeting := None\<rparr>)\<rparr>)
              [(ToOthers (JStr meetingId) (sock_id s), ''user-disconnected'', user_disconnected s)])"

text \<open>On disconnect socket.io has already taken the socket out of every room.\<close>

definition disconnect :: "socket \<Rightarrow> server \<Rightarrow> outcome" where
  "disconnect s st =
     (let st' = st\<lparr>rooms := (\<lambda>r. rooms st r - {sock_id s}),
                   sockets := (sockets st)(sock_id s := None)\<rparr>
      in if truthy (currentMeeting s)
         then done_with st'
                [(ToOthers (opt_str (currentMeeting s)) (sock_id s), ''user-disconnected'',
                  user_disconnected s)]
         else done_with st' [])"

section \<open>The REST join and leave routes (routes/meetings.js)\<close>

record response =
  status :: nat
  success :: bool
  message :: string

definition participant_doc :: "participant \<Rightarrow> jsval" where
  "participant_doc p =
     JObj [(''userId'', JStr (userId p)), (''name'', JStr (name p)), (''joinedAt'', JDate (joinedAt p)),
           (''isMuted'', isMuted p), (''isVideoOn'', isVideoOn p), (''isHost'', JBool (isHost p))]"

text \<open>
  \<open>POST /join/:meetingId\<close> for the authenticated user \<open>(uid, nm)\<close>, with the request body
  \<open>body\<close>. The checks run in the order of the source: meeting found, password, capacity,
  already a participant, add.
\<close>

definition rest_join ::
  "string \<Rightarrow> string \<Rightarrow> string \<Rightarrow> jsval \<Rightarrow> nat \<Rightarrow> server \<Rightarrow> server \<times> emit list \<times> response" where
  "rest_join uid nm meetingId body now st =
     (if nullish body then
        (st, [], \<lparr>status = 500, success = False, message = ''Internal server error''\<rparr>)
      else
        (case findOne (db st) (toUpperCase meetingId) of
           None \<Rightarrow>
             (st, [], \<lparr>status = 404, success = False, message = ''Meeting not found or has ended''\<rparr>)
         | Some m \<Rightarrow>
             if requirePassword m \<and> opt_str (meetingPassword m) \<noteq> js_get body ''password'' then
               (st, [], \<lparr>status = 401, success = False, message = ''Invalid meeting password''\<rparr>)
             else if int (length (participants m)) \<ge> maxParticipants m then
               (st, [], \<lparr>status = 400, success = False, message = ''Meeting is full''\<rparr>)
             else
               (case find (\<lambda>p. userId p = uid) (participants m) of
                  Some existingParticipant \<Rightarrow>
                    (st, [], \<lparr>status = 200, success = True, message = ''Already in meeting''\<rparr>)
                | None \<Rightarrow>
                    (case addParticipant m uid nm False now of
                       Inl e \<Rightarrow>
                         (st, [],
                          \<lparr>status = 500, success = False, message = ''Internal server error''\<rparr>)
                     | Inr (m', p) \<Rightarrow>
                         (st\<lparr>db := (db st)(toUpperCase meetingId \<mapsto> m')\<rparr>,
                          [(ToRoom (JStr meetingId), ''participant-joined'',
                            JObj [(''participant'',
                                   JObj [(''userId'', JStr uid), (''name'', JStr nm),
                                         (''isHost'', JBool False)]),
                                  (''meeting'',
                                   JObj [(''meetingId'', JStr (toUpperCase meetingId)),
                                         (''participants'',
                                          JArr (map participant_doc (participants m')))])])],
                          \<lparr>status = 200, success = True,
                           message = ''Successfully joined meeting''\<rparr>)))))"

text \<open>\<open>POST /:meetingId/leave\<close>: the entry is removed from the persisted list.\<close>

definition rest_leave ::
  "string \<Rightarrow> string \<Rightarrow> string \<Rightarrow> server \<Rightarrow> server \<times> emit list \<times> response" where
  "rest_leave uid nm meetingId st =
     (case findOne (db st) (toUpperCase meetingId) of
        None \<Rightarrow>
          (st, [], \<lparr>status = 404, success = False, message = ''Meeting not found or has ended''\<rparr>)
      | Some m \<Rightarrow>
          (let m' = removeParticipant m uid in
           (st\<lparr>db := (db st)(toUpperCase meetingId \<mapsto> m')\<rparr>,
            [(ToRoom (JStr meetingId), ''participant-left'',
              JObj [(''userId'', JStr uid), (''name'', JStr nm),
                    (''meeting'',
                     JObj [(''meetingId'', JStr (toUpperCase meetingId)),
                           (''participants'', JArr (map participant_doc (participants m')))])])],
            \<lparr>status = 200, success = True, message = ''Successfully left meeting''\<rparr>)))"

section \<open>Delivery and well-formed states\<close>

text \<open>The events that socket \<open>i\<close> receives from a list of emits, in order.\<close>

fun inbox :: "server \<Rightarrow> emit list \<Rightarrow> string \<Rightarrow> (string \<times> jsval) list" where
  "inbox st [] i = []"
| "inbox st ((t, ev, payload) # es) i =
     (if i \<in> recipients st t then (ev, payload) # inbox st es i else inbox st es i)"

text \<open>
  The states the handlers maintain: a socket is stored under its own id, the room named by
  its \<open>currentMeeting\<close> has it as a member, and every stored meeting id respects the
  schema's \<open>minlength: 6\<close>.
\<close>

definition well_formed :: "server \<Rightarrow> bool" where
  "well_formed st =
     ((\<forall>i s. sockets st i = Some s \<longrightarrow>
          sock_id s = i \<and> (\<forall>r. currentMeeting s = Some r \<longrightarrow> r \<noteq> [] \<and> i \<in> rooms st r))
      \<and> (\<forall>k m. db st k = Some m \<longrightarrow> 6 \<le> length k))"



section \<open>Example states\<close>

definition alice_entry :: participant where
  "alice_entry = \<lparr>userId = ''u1'', name = ''Alice'', joinedAt = 0, isMuted = JBool False,
                   isVideoOn = JBool True, isHost = True\<rparr>"

definition bob_entry :: participant where
  "bob_entry = \<lparr>userId = ''u2'', name = ''Bob'', joinedAt = 1, isMuted = JBool False,
                 isVideoOn = JBool True, isHost = False\<rparr>"

definition alice :: socket where
  "alice = \<lparr>sock_id = ''s1'', sock_userId = Some ''u1'', sock_userName = ''Alice'',
             isAuthenticated = True, currentMeeting = Some ''TEAM4242''\<rparr>"

definition bob :: socket where
  "bob = \<lparr>sock_id = ''s2'', sock_userId = Some ''u2'', sock_userName = ''Bob'',
           isAuthenticated = True, currentMeeting = Some ''TEAM4242''\<rparr>"

definition guest :: socket where
  "guest = \<lparr>sock_id = ''s3'', sock_userId = None, sock_userName = ''Guest'',
             isAuthenticated = False, currentMeeting = None\<rparr>"

definition carol :: socket where
  "carol = \<lparr>sock_id = ''s4'', sock_userId = Some ''u3'', sock_userName = ''Carol'',
             isAuthenticated = True, currentMeeting = None\<rparr>"

definition dave :: socket where
  "dave = \<lparr>sock_id = ''s5'', sock_userId = Some ''u4'', sock_userName = ''Dave'',
            isAuthenticated = True, currentMeeting = Some ''TEAM4242''\<rparr>"

definition alice2 :: socket where
  "alice2 = \<lparr>sock_id = ''s6'', sock_userId = Some ''u1'', sock_userName = ''Alice'',
              isAuthenticated = True, currentMeeting = Some ''SOLO1111''\<rparr>"

text \<open>
  TEAM4242: Alice hosts, Alice and Bob have entries; Dave is connected to the room but
  his entry was removed through the leave route. SOLO1111 has room for one and Alice
  holds the place, connected from a second socket. LOCK2222 asks for the password \<open>secret\<close>.
\<close>

definition team_meeting :: meeting where
  "team_meeting = \<lparr>hostId = ''u1'', isActive = True, participants = [alice_entry, bob_entry],
                    maxParticipants = 50, requirePassword = False, meetingPassword = None\<rparr>"

definition solo_meeting :: meeting where
  "solo_meeting = \<lparr>hostId = ''u1'', isActive = True, participants = [alice_entry],
                    maxParticipants = 1, requirePassword = False, meetingPassword = None\<rparr>"

definition lock_meeting :: meeting where
  "lock_meeting = \<lparr>hostId = ''u1'', isActive = True, participants = [alice_entry],
                    maxParticipants = 50, requirePassword = True,
                    meetingPassword = Some ''secret''\<rparr>"

definition team_state :: server where
  "team_state =
     \<lparr>sockets = [''s1'' \<mapsto> alice, ''s2'' \<mapsto> bob, ''s3'' \<mapsto> guest, ''s4'' \<mapsto> carol,
                 ''s5'' \<mapsto> dave, ''s6'' \<mapsto> alice2],
      rooms = (\<lambda>r. {})(''TEAM4242'' := {''s1'', ''s2'', ''s5''}, ''SOLO1111'' := {''s6''}),
      db = [''TEAM4242'' \<mapsto> team_meeting, ''SOLO1111'' \<mapsto> solo_meeting,
            ''LOCK2222'' \<mapsto> lock_meeting]\<rparr>"

section \<open>Basic facts\<close>

lemma findOne_Some: "findOne c k = Some m \<Longrightarrow> c k = Some m \<and> isActive m"
  by (auto simp: findOne_def split: option.splits if_splits)

lemma try_catch_done: "try_catch s msg (done_with st es) = done_with st es"
  by (simp add: try_catch_def done_with_def)

lemma try_catch_throw:
  "try_catch s msg (throw st es e) = done_with st (es @ [emit_error s msg])"
  by (simp add: try_catch_def done_with_def throw_def)

lemma try_catch_state: "state (try_catch s msg r) = state r"
  by (simp add: try_catch_def split: option.splits)

lemma try_catch_uncaught: "uncaught (try_catch s msg r) = None"
  by (simp add: try_catch_def split: option.splits)

lemma js_get_nullish: "js_get data k = JStr x \<Longrightarrow> \<not> nullish data"
  by (cases data) (simp_all add: nullish_def)

lemma well_formed_current_room:
  "well_formed st \<Longrightarrow> sockets st (sock_id s) = Some s \<Longrightarrow> currentMeeting s = Some r \<Longrightarrow>
   r \<noteq> [] \<and> sock_id s \<in> rooms st r"
  unfolding well_formed_def by blast

lemma no_match_not_in_meeting:
  "(\<And>r. currentMeeting s = Some r \<Longrightarrow> v \<noteq> JStr r) \<Longrightarrow> not_in_meeting s v"
  by (cases "currentMeeting s") (simp_all add: not_in_meeting_def truthy_def opt_str_def)

lemma match_in_meeting:
  "currentMeeting s = Some r \<Longrightarrow> r \<noteq> [] \<Longrightarrow> \<not> not_in_meeting s (JStr r)"
  by (simp add: not_in_meeting_def truthy_def opt_str_def)

lemma list_ex_userId:
  "list_ex (\<lambda>p. userId p = u) ps \<longleftrightarrow> u \<in> userId ` set ps"
  by (induction ps) auto

lemma find_None_userId: "find (\<lambda>p. userId p = u) ps = None \<longleftrightarrow> u \<notin> userId ` set ps"
  by (induction ps) auto

lemma find_assign_first:
  "find (\<lambda>q. userId q = u) ps = Some p \<Longrightarrow>
   find (\<lambda>q. userId q = u) (assign_first u mu vi ps) = Some (p\<lparr>isMuted := mu, isVideoOn := vi\<rparr>)"
  by (induction ps) (auto split: if_splits)

lemma userIds_assign_first: "map userId (assign_first u mu vi ps) = map userId ps"
  by (induction ps) auto



lemma castBoolean_JBool: "castBoolean (JBool b) = Some (JBool b)"
  by (cases b) (simp_all add: castBoolean_def)



lemma upper_examples:
  "toUpperCase ''TEAM4242'' = ''TEAM4242''"
  "toUpperCase ''SOLO1111'' = ''SOLO1111''"
  "toUpperCase ''LOCK2222'' = ''LOCK2222''"
  by code_simp+

lemma well_formed_team_state: "well_formed team_state"
  by (simp add: well_formed_def team_state_def alice_def bob_def guest_def carol_def dave_def alice2_def)

section \<open>The capacity and uniqueness checks of the model method\<close>

lemma addParticipant_full:
  "u \<notin> userId ` set (participants m) \<Longrightarrow> maxParticipants m \<le> int (length (participants m)) \<Longrightarrow>
   addParticipant m u nm h now = Inl (Error ''Meeting is full'')"
  by (simp add: addParticipant_def find_None_userId [symmetric])

lemma addParticipant_capacity:
  "addParticipant m u nm h now = Inr (m', p) \<Longrightarrow>
   int (length (participants m)) \<le> maxParticipants m \<Longrightarrow>
   int (length (participants m')) \<le> maxParticipants m'"
  by (auto simp: addParticipant_def Let_def split: option.splits if_splits)

lemma addParticipant_distinct:
  "addParticipant m u nm h now = Inr (m', p) \<Longrightarrow> distinct (map userId (participants m)) \<Longrightarrow>
   distinct (map userId (participants m'))"
  by (auto simp: addParticipant_def Let_def find_None_userId split: option.splits if_splits)

lemma auto_add_guest: "\<not> isAuthenticated s \<Longrightarrow> auto_add s m now = Inr (m, False)"
  by (simp add: auto_add_def)

lemma join_body_db_guest:
  "\<not> isAuthenticated s \<Longrightarrow> db (state (join_meeting_body s data now st)) = db st"
  by (simp add: join_meeting_body_def throw_def done_with_def auto_add_guest isUserHost_def Let_def
           split: jsval.splits option.splits sum.splits)

lemma auto_add_rejoin:
  "sock_userId s = Some u \<Longrightarrow> u \<in> userId ` set (participants m) \<Longrightarrow>
   auto_add s m now = Inr (m, False)"
  by (simp add: auto_add_def list_ex_userId)

lemma auto_add_distinct:
  "auto_add s m now = Inr (m', saved) \<Longrightarrow> distinct (map userId (participants m)) \<Longrightarrow>
   distinct (map userId (participants m'))"
  by (auto simp: auto_add_def list_ex_userId split: if_splits option.splits)

lemma rest_join_rejoin_below_capacity:
  assumes "findOne (db st) (toUpperCase mid) = Some m" and "\<not> nullish body"
    and "\<not> requirePassword m" and "int (length (participants m)) < maxParticipants m"
    and "find (\<lambda>p. userId p = u) (participants m) = Some p"
  shows "rest_join u nm mid body now st =
           (st, [], \<lparr>status = 200, success = True, message = ''Already in meeting''\<rparr>)"
  using assms by (simp add: rest_join_def)

section \<open>Well-formedness is kept by every handler\<close>

lemma well_formed_start: "(\<And>k m. c k = Some m \<Longrightarrow> 6 \<le> length k) \<Longrightarrow>
   well_formed \<lparr>sockets = Map.empty, rooms = (\<lambda>r. {}), db = c\<rparr>"
  by (simp add: well_formed_def)

lemma well_formed_connection: "well_formed st \<Longrightarrow> well_formed (connection i cred st)"
  unfolding well_formed_def connection_def by (auto split: option.splits)

lemma well_formed_join_meeting:
  assumes "well_formed st"
  shows "well_formed (state (join_meeting s data now st))"
proof -
  have k: "\<And>r m. findOne (db st) (toUpperCase r) = Some m \<Longrightarrow>
             r \<noteq> [] \<and> 6 \<le> length (toUpperCase r)"
    using assms by (fastforce simp: well_formed_def toUpperCase_def dest!: findOne_Some)
  have "well_formed (state (join_meeting_body s data now st))"
    using assms k
    apply (simp add: join_meeting_body_def throw_def done_with_def Let_def
           split: jsval.splits option.splits sum.splits prod.splits)
    apply (auto simp: well_formed_def)
    done
  then show ?thesis by (simp add: join_meeting_def try_catch_state)
qed

lemma send_message_state: "state (send_message s data now ts st) = st"
  by (simp add: send_message_def send_message_body_def try_catch_state throw_def done_with_def
        Let_def split: jsval.splits)

lemma webrtc_state:
  "state (webrtc_offer s data st) = st"
  "state (webrtc_answer s data st) = st"
  "state (webrtc_ice_candidate s data st) = st"
  by (simp_all add: webrtc_offer_def webrtc_answer_def webrtc_ice_candidate_def throw_def
        done_with_def)

lemma mute_participant_state: "state (mute_participant s data st) = st"
  by (simp add: mute_participant_def mute_participant_body_def try_catch_state throw_def
        done_with_def split: jsval.splits option.splits sum.splits)

lemma well_formed_db_update:
  "well_formed st \<Longrightarrow> db st k = Some m \<Longrightarrow> well_formed (st\<lparr>db := (db st)(k \<mapsto> m')\<rparr>)"
  unfolding well_formed_def by simp

lemma well_formed_update_participant_status:
  assumes "well_formed st"
  shows "well_formed (state (update_participant_status s data st))"
proof -
  have "well_formed (state (update_participant_status_body s data st))"
    using assms
    by (auto simp: update_participant_status_body_def throw_def done_with_def Let_def
          intro: well_formed_db_update dest!: findOne_Some
          split: jsval.splits option.splits sum.splits prod.splits)
  then show ?thesis by (simp add: update_participant_status_def try_catch_state)
qed

lemma well_formed_leave_meeting: "well_formed st \<Longrightarrow> well_formed (state (leave_meeting s st))"
  unfolding well_formed_def leave_meeting_def done_with_def
  by (auto split: option.splits)

lemma well_formed_disconnect: "well_formed st \<Longrightarrow> well_formed (state (disconnect s st))"
  unfolding well_formed_def disconnect_def done_with_def Let_def
  by (auto split: if_splits)

lemma well_formed_rest_join: "well_formed st \<Longrightarrow> well_formed (fst (rest_join u nm mid body now st))"
  by (auto simp: rest_join_def intro: well_formed_db_update dest!: findOne_Some
        split: option.splits sum.splits prod.splits)

lemma well_formed_rest_leave: "well_formed st \<Longrightarrow> well_formed (fst (rest_leave u nm mid st))"
  by (auto simp: rest_leave_def Let_def intro: well_formed_db_update dest!: findOne_Some
        split: option.splits)

section \<open>Host control with a user identifier\<close>

lemma mute_participant_not_host:
  assumes "js_get data ''meetingId'' = JStr mid" and "sock_userId s = Some u"
    and "findOne (db st) (toUpperCase mid) = Some m" and "hostId m \<noteq> u"
  shows "mute_participant s data st =
           \<lparr>state = st, emitted = [emit_error s ''Not authorized to mute participants''],
            uncaught = None\<rparr>"
proof -
  have "\<not> nullish data" using assms(1) by (rule js_get_nullish)
  then show ?thesis
    using assms
    by (simp add: mute_participant_def mute_participant_body_def isUserHost_def try_catch_done)
       (simp add: done_with_def)
qed

lemma mute_participant_host:
  assumes "js_get data ''meetingId'' = JStr mid" and "sock_userId s = Some u"
    and "findOne (db st) (toUpperCase mid) = Some m" and "hostId m = u"
  shows "mute_participant s data st =
           \<lparr>state = st,
            emitted = [(ToRoom (JStr mid), ''mute-request'',
                        JObj [(''targetUserId'', js_get data ''targetUserId''),
                              (''fromHost'', JBool True)])],
            uncaught = None\<rparr>"
proof -
  have "\<not> nullish data" using assms(1) by (rule js_get_nullish)
  then show ?thesis
    using assms
    by (simp add: mute_participant_def mute_participant_body_def isUserHost_def try_catch_done)
       (simp add: done_with_def)
qed

section \<open>The schema's cast in the status handler\<close>

lemma castBoolean_examples:
  "castBoolean (JStr ''yes'') = Some (JBool True)"
  "castBoolean (JNum 0) = Some (JBool False)"
  "castBoolean JNull = Some JNull"
  "castBoolean JUndefined = Some JUndefined"
  "castBoolean (JStr ''banana'') = None"
  by (simp_all add: castBoolean_def nullish_def)

lemma update_participant_status_cast:
  "update_participant_status bob
     (JObj [(''meetingId'', JStr ''TEAM4242''), (''isMuted'', JStr ''yes''),
            (''isVideoOn'', JNum 0)]) team_state =
     \<lparr>state = team_state\<lparr>db := (db team_state)
                (''TEAM4242'' \<mapsto>
                   team_meeting\<lparr>participants :=
                     [alice_entry, bob_entry\<lparr>isMuted := JBool True, isVideoOn := JBool False\<rparr>]\<rparr>)\<rparr>,
      emitted = [(ToRoom (JStr ''TEAM4242''), ''participant-status-updated'',
                  JObj [(''userId'', JStr ''u2''), (''userName'', JStr ''Bob''),
                        (''isMuted'', JBool True), (''isVideoOn'', JBool False)])],
      uncaught = None\<rparr>"
  by (simp add: update_participant_status_def update_participant_status_body_def try_catch_def
        throw_def done_with_def nullish_def upper_examples findOne_def team_state_def
        team_meeting_def bob_def not_in_meeting_def truthy_def opt_str_def updateParticipant_def
        alice_entry_def bob_entry_def castBoolean_examples set_flag_def save_flags_def reload_def
        status_updated_def Let_def)

lemma update_participant_status_uncastable:
  "update_participant_status bob
     (JObj [(''meetingId'', JStr ''TEAM4242''), (''isMuted'', JStr ''banana''),
            (''isVideoOn'', JBool False)]) team_state =
     \<lparr>state = team_state,
      emitted = [(ToSocket ''s2'', ''error'', JObj [(''message'', JStr ''Failed to update status'')])],
      uncaught = None\<rparr>"
  by (simp add: update_participant_status_def update_participant_status_body_def try_catch_def
        throw_def done_with_def nullish_def upper_examples findOne_def team_state_def
        team_meeting_def bob_def not_in_meeting_def truthy_def opt_str_def updateParticipant_def
        alice_entry_def bob_entry_def castBoolean_examples castBoolean_JBool set_flag_def
        emit_error_def Let_def)


section \<open>The claims\<close>

subsection \<open>Capacity\<close>

text \<open>
  Claim C1 (the member count never exceeds the capacity; a join at capacity fails with
  RoomFull). The socket handler pushes the new entry itself and never compares the list
  with \<open>maxParticipants\<close>: in SOLO1111, which has room for one and already holds Alice,
  Carol's join-meeting succeeds, the persisted list grows to two entries and the room to
  two sockets, and Carol receives \<open>meeting-joined\<close>, not an error.
\<close>

theorem join_meeting_ignores_capacity:
  "emitted (join_meeting carol (JObj [(''meetingId'', JStr ''SOLO1111'')]) 7 team_state) =
     [(ToOthers (JStr ''SOLO1111'') ''s4'', ''user-connected'',
       JObj [(''userId'', JStr ''u3''), (''userName'', JStr ''Carol''), (''socketId'', JStr ''s4''),
             (''isGuest'', JBool False)]),
      (ToSocket ''s4'', ''meeting-joined'',
       JObj [(''meetingId'', JStr ''SOLO1111''),
             (''participants'',
              JArr [JObj [(''userId'', JStr ''u1''), (''name'', JStr ''Alice''),
                          (''isMuted'', JBool False), (''isVideoOn'', JBool True),
                          (''isHost'', JBool True)],
                    JObj [(''userId'', JStr ''u3''), (''name'', JStr ''Carol''),
                          (''isMuted'', JBool False), (''isVideoOn'', JBool True),
                          (''isHost'', JBool False)]]),
             (''isHost'', JBool False)])] \<and>
   uncaught (join_meeting carol (JObj [(''meetingId'', JStr ''SOLO1111'')]) 7 team_state) = None \<and>
   rooms team_state ''SOLO1111'' = {''s6''} \<and>
   rooms (state (join_meeting carol (JObj [(''meetingId'', JStr ''SOLO1111'')]) 7 team_state))
     ''SOLO1111'' = {''s4'', ''s6''} \<and>
   map_option maxParticipants (db team_state ''SOLO1111'') = Some 1 \<and>
   map_option participants (db team_state ''SOLO1111'') = Some [alice_entry] \<and>
   map_option participants
     (db (state (join_meeting carol (JObj [(''meetingId'', JStr ''SOLO1111'')]) 7 team_state))
        ''SOLO1111'') =
     Some [alice_entry,
           \<lparr>userId = ''u3'', name = ''Carol'', joinedAt = 7, isMuted = JBool False,
            isVideoOn = JBool True, isHost = False\<rparr>]"
  by (simp add: join_meeting_def join_meeting_body_def try_catch_def throw_def done_with_def
        nullish_def upper_examples findOne_def team_state_def solo_meeting_def auto_add_def
        carol_def isUserHost_def Let_def user_connected_def sender_id_def participant_view_def
        alice_entry_def)

subsection \<open>Password\<close>

text \<open>
  Claim C2 (a join to a meeting with \<open>requirePassword\<close> fails with Unauthorized on a
  wrong credential). The socket handler never reads the password: Carol joins LOCK2222
  with the credential \<open>wrong\<close>, is registered in the room and announced to it. The REST
  route answers the same request with 401.
\<close>

theorem join_meeting_skips_password:
  "requirePassword lock_meeting \<and> meetingPassword lock_meeting = Some ''secret'' \<and>
   db team_state ''LOCK2222'' = Some lock_meeting \<and>
   emitted (join_meeting carol
              (JObj [(''meetingId'', JStr ''LOCK2222''), (''password'', JStr ''wrong'')])
              7 team_state) =
     [(ToOthers (JStr ''LOCK2222'') ''s4'', ''user-connected'',
       JObj [(''userId'', JStr ''u3''), (''userName'', JStr ''Carol''), (''socketId'', JStr ''s4''),
             (''isGuest'', JBool False)]),
      (ToSocket ''s4'', ''meeting-joined'',
       JObj [(''meetingId'', JStr ''LOCK2222''),
             (''participants'',
              JArr [JObj [(''userId'', JStr ''u1''), (''name'', JStr ''Alice''),
                          (''isMuted'', JBool False), (''isVideoOn'', JBool True),
                          (''isHost'', JBool True)],
                    JObj [(''userId'', JStr ''u3''), (''name'', JStr ''Carol''),
                          (''isMuted'', JBool False), (''isVideoOn'', JBool True),
                          (''isHost'', JBool False)]]),
             (''isHost'', JBool False)])] \<and>
   rooms (state (join_meeting carol
                   (JObj [(''meetingId'', JStr ''LOCK2222''), (''password'', JStr ''wrong'')])
                   7 team_state)) ''LOCK2222'' = {''s4''} \<and>
   snd (snd (rest_join ''u3'' ''Carol'' ''LOCK2222'' (JObj [(''password'', JStr ''wrong'')])
               7 team_state)) =
     \<lparr>status = 401, success = False, message = ''Invalid meeting password''\<rparr>"
  by (simp add: join_meeting_def join_meeting_body_def try_catch_def throw_def done_with_def
        nullish_def upper_examples findOne_def team_state_def lock_meeting_def auto_add_def
        carol_def isUserHost_def Let_def user_connected_def sender_id_def participant_view_def
        alice_entry_def rest_join_def opt_str_def)

subsection \<open>Signaling relay\<close>

text \<open>
  Claim C3 (a relay call by a session that is not a member of the room fails with
  NotInRoom and forwards nothing). The guest socket is in no room, yet its webrtc-offer
  for TEAM4242 is forwarded to the three members of that room and no error is emitted.
\<close>

theorem webrtc_offer_from_outsider:
  "currentMeeting guest = None \<and> ''s3'' \<notin> rooms team_state ''TEAM4242'' \<and>
   webrtc_offer guest
     (JObj [(''meetingId'', JStr ''TEAM4242''), (''targetUserId'', JStr ''u2''),
            (''offer'', JStr ''sdp'')]) team_state =
     \<lparr>state = team_state,
      emitted = [(ToOthers (JStr ''TEAM4242'') ''s3'', ''webrtc-offer'',
                  JObj [(''fromUserId'', JStr ''guest-s3''), (''fromUserName'', JStr ''Guest''),
                        (''offer'', JStr ''sdp'')])],
      uncaught = None\<rparr> \<and>
   recipients team_state (ToOthers (JStr ''TEAM4242'') ''s3'') = {''s1'', ''s2'', ''s5''}"
  by (simp add: webrtc_offer_def done_with_def nullish_def guest_def team_state_def sender_id_def)

subsection \<open>Errors stay inside the handler\<close>

text \<open>
  Claim C4 (no handler throws an uncaught exception). The three signaling handlers
  destructure their payload outside any \<open>try\<close> block: called without a payload they
  throw a TypeError that nothing catches and emit nothing, where send-message on the same
  input emits \<open>error\<close> to the caller.
\<close>

theorem webrtc_handlers_throw:
  "webrtc_offer alice JUndefined team_state =
     \<lparr>state = team_state, emitted = [], uncaught = Some TypeError\<rparr> \<and>
   webrtc_answer alice JUndefined team_state =
     \<lparr>state = team_state, emitted = [], uncaught = Some TypeError\<rparr> \<and>
   webrtc_ice_candidate alice JUndefined team_state =
     \<lparr>state = team_state, emitted = [], uncaught = Some TypeError\<rparr> \<and>
   send_message alice JUndefined 7 7 team_state =
     \<lparr>state = team_state, emitted = [emit_error alice ''Failed to send message''],
      uncaught = None\<rparr>"
  by (simp add: webrtc_offer_def webrtc_answer_def webrtc_ice_candidate_def send_message_def
        send_message_body_def try_catch_def throw_def nullish_def)

subsection \<open>Rejoin\<close>

text \<open>
  Claim C5 (a rejoin reuses the entry and does not error, whatever the member count).
  The REST route tests the capacity before it looks for the existing entry: Alice, who
  holds the only place of SOLO1111, is answered 400 \<open>Meeting is full\<close> when she joins
  again, while \<open>addParticipant\<close> on the same meeting returns her entry.
\<close>

theorem rest_join_rejects_rejoin_when_full:
  "db team_state ''SOLO1111'' = Some solo_meeting \<and>
   find (\<lambda>p. userId p = ''u1'') (participants solo_meeting) = Some alice_entry \<and>
   rest_join ''u1'' ''Alice'' ''SOLO1111'' (JObj []) 7 team_state =
     (team_state, [], \<lparr>status = 400, success = False, message = ''Meeting is full''\<rparr>) \<and>
   addParticipant solo_meeting ''u1'' ''Alice'' False 7 = Inr (solo_meeting, alice_entry)"
  by (simp add: rest_join_def nullish_def upper_examples findOne_def team_state_def
        solo_meeting_def alice_entry_def addParticipant_def)

subsection \<open>What a join announces\<close>




subsection \<open>Chat relay\<close>

text \<open>
  Claim C7. In a well-formed state, a send-message whose \<open>meetingId\<close> is the sender's
  current room and whose \<open>message\<close> is a string emits exactly one \<open>new-message\<close> event to
  the room: its \<open>message\<close> is the trimmed text, its \<open>id\<close> is the decimal clock value, the
  sender is a member of the room, and every member of the room (and nobody else) receives
  that one record. When the sender's current room does not match the given \<open>meetingId\<close>,
  the only event is the error \<open>Not in this meeting\<close>, delivered to the sender alone.
  The state is unchanged in both cases.
\<close>

theorem send_message_fanout:
  assumes "well_formed st" and "sockets st (sock_id s) = Some s" and "\<not> nullish data"
  shows "(currentMeeting s = Some r \<and> js_get data ''meetingId'' = JStr r \<and>
          js_get data ''message'' = JStr txt \<longrightarrow>
            (\<exists>rcd.
               send_message s data now ts st =
                 \<lparr>state = st, emitted = [(ToRoom (JStr r), ''new-message'', rcd)], uncaught = None\<rparr> \<and>
               js_get rcd ''message'' = JStr (trim txt) \<and>
               js_get rcd ''id'' = JStr (toString now) \<and>
               js_get rcd ''userName'' = JStr (sock_userName s) \<and>
               sock_id s \<in> rooms st r \<and>
               (\<forall>i. inbox st (emitted (send_message s data now ts st)) i =
                      (if i \<in> rooms st r then [(''new-message'', rcd)] else [])))) \<and>
         ((\<forall>r. currentMeeting s = Some r \<longrightarrow> js_get data ''meetingId'' \<noteq> JStr r) \<longrightarrow>
            send_message s data now ts st =
              \<lparr>state = st, emitted = [emit_error s ''Not in this meeting''], uncaught = None\<rparr> \<and>
            (\<forall>i. inbox st (emitted (send_message s data now ts st)) i =
                   (if i = sock_id s then [(''error'', JObj [(''message'', JStr ''Not in this meeting'')])]
                    else [])))"
proof (rule conjI; rule impI)
  assume h: "currentMeeting s = Some r \<and> js_get data ''meetingId'' = JStr r \<and>
          js_get data ''message'' = JStr txt"
  then have r: "r \<noteq> []" "sock_id s \<in> rooms st r"
    using well_formed_current_room [OF assms(1,2)] by auto
  have nim: "\<not> not_in_meeting s (JStr r)"
    using h r by (simp add: match_in_meeting)
  define ty where "ty = (if js_get data ''type'' = JUndefined then JStr ''text'' else js_get data ''type'')"
  have run: "send_message s data now ts st =
      done_with st [(ToRoom (JStr r), ''new-message'', chatMessage s txt ty now ts)]"
    using assms(3) h nim
    by (simp add: send_message_def send_message_body_def Let_def try_catch_done ty_def)
  show "\<exists>rcd.
               send_message s data now ts st =
                 \<lparr>state = st, emitted = [(ToRoom (JStr r), ''new-message'', rcd)], uncaught = None\<rparr> \<and>
               js_get rcd ''message'' = JStr (trim txt) \<and>
               js_get rcd ''id'' = JStr (toString now) \<and>
               js_get rcd ''userName'' = JStr (sock_userName s) \<and>
               sock_id s \<in> rooms st r \<and>
               (\<forall>i. inbox st (emitted (send_message s data now ts st)) i =
                      (if i \<in> rooms st r then [(''new-message'', rcd)] else []))"
    apply (rule exI [of _ "chatMessage s txt ty now ts"])
    using r by (simp add: run done_with_def chatMessage_def)
next
  assume h: "\<forall>r. currentMeeting s = Some r \<longrightarrow> js_get data ''meetingId'' \<noteq> JStr r"
  then have "not_in_meeting s (js_get data ''meetingId'')"
    by (intro no_match_not_in_meeting) auto
  then have run: "send_message s data now ts st = done_with st [emit_error s ''Not in this meeting'']"
    using assms(3)
    by (simp add: send_message_def send_message_body_def Let_def try_catch_done)
  show "send_message s data now ts st =
              \<lparr>state = st, emitted = [emit_error s ''Not in this meeting''], uncaught = None\<rparr> \<and>
            (\<forall>i. inbox st (emitted (send_message s data now ts st)) i =
                   (if i = sock_id s then [(''error'', JObj [(''message'', JStr ''Not in this meeting'')])]
                    else []))"
    by (simp add: run done_with_def emit_error_def)
qed

theorem send_message_fanout_witness:
  "well_formed team_state \<and> sockets team_state (sock_id alice) = Some alice \<and>
   sockets team_state (sock_id carol) = Some carol \<and>
   \<not> nullish (JObj [(''meetingId'', JStr ''TEAM4242''), (''message'', JStr '' hello '')]) \<and>
   currentMeeting alice = Some ''TEAM4242'' \<and> currentMeeting carol = None \<and>
   (\<exists>rcd.
      send_message alice (JObj [(''meetingId'', JStr ''TEAM4242''), (''message'', JStr '' hello '')])
        1700 1701 team_state =
        \<lparr>state = team_state, emitted = [(ToRoom (JStr ''TEAM4242''), ''new-message'', rcd)],
         uncaught = None\<rparr> \<and>
      js_get rcd ''message'' = JStr ''hello'' \<and>
      js_get rcd ''id'' = JStr ''1700'' \<and>
      inbox team_state
        (emitted (send_message alice
           (JObj [(''meetingId'', JStr ''TEAM4242''), (''message'', JStr '' hello '')])
           1700 1701 team_state)) ''s1'' = [(''new-message'', rcd)] \<and>
      inbox team_state
        (emitted (send_message alice
           (JObj [(''meetingId'', JStr ''TEAM4242''), (''message'', JStr '' hello '')])
           1700 1701 team_state)) ''s2'' = [(''new-message'', rcd)]) \<and>
   send_message carol (JObj [(''meetingId'', JStr ''TEAM4242''), (''message'', JStr '' hello '')])
     1700 1701 team_state =
     \<lparr>state = team_state, emitted = [emit_error carol ''Not in this meeting''], uncaught = None\<rparr>"
proof -
  let ?d = "JObj [(''meetingId'', JStr ''TEAM4242''), (''message'', JStr '' hello '')]"
  have nn: "\<not> nullish ?d" by (simp add: nullish_def)
  have sa: "sockets team_state (sock_id alice) = Some alice"
    by (simp add: team_state_def alice_def)
  have sc: "sockets team_state (sock_id carol) = Some carol"
    by (simp add: team_state_def carol_def)
  have tr: "trim '' hello '' = ''hello''" by (simp add: trim_def is_space_def)
  have ts: "toString 1700 = ''1700''" by code_simp
  have rm: "''s1'' \<in> rooms team_state ''TEAM4242''" "''s2'' \<in> rooms team_state ''TEAM4242''"
    by (simp_all add: team_state_def)
  have ca: "currentMeeting alice = Some ''TEAM4242''" by (simp add: alice_def)
  have cc: "currentMeeting carol = None" by (simp add: carol_def)
  from send_message_fanout [OF well_formed_team_state sa nn, of "''TEAM4242''" "'' hello ''" 1700 1701]
  have A: "\<exists>rcd.
      send_message alice ?d 1700 1701 team_state =
        \<lparr>state = team_state, emitted = [(ToRoom (JStr ''TEAM4242''), ''new-message'', rcd)],
         uncaught = None\<rparr> \<and>
      js_get rcd ''message'' = JStr ''hello'' \<and>
      js_get rcd ''id'' = JStr ''1700'' \<and>
      inbox team_state (emitted (send_message alice ?d 1700 1701 team_state)) ''s1''
        = [(''new-message'', rcd)] \<and>
      inbox team_state (emitted (send_message alice ?d 1700 1701 team_state)) ''s2''
        = [(''new-message'', rcd)]"
    using ca rm by (auto simp: tr ts)
  from send_message_fanout [OF well_formed_team_state sc nn, of _ _ 1700 1701]
  have B: "send_message carol ?d 1700 1701 team_state =
     \<lparr>state = team_state, emitted = [emit_error carol ''Not in this meeting''], uncaught = None\<rparr>"
    using cc by simp
  show ?thesis using well_formed_team_state sa sc nn ca cc A B by blast
qed

subsection \<open>Host control\<close>

text \<open>
  Claim C8 (a mute request by a non-host fails with Forbidden). A guest has no user id,
  so \<open>isUserHost\<close> throws on it and the guest is answered \<open>Failed to mute participant\<close>;
  Bob, who has a user id and is not the host, is answered
  \<open>Not authorized to mute participants\<close>. Neither request emits \<open>mute-request\<close>.
\<close>

theorem mute_participant_by_guest:
  "sock_userId guest = None \<and>
   mute_participant guest
     (JObj [(''meetingId'', JStr ''TEAM4242''), (''targetUserId'', JStr ''u2'')]) team_state =
     \<lparr>state = team_state,
      emitted = [(ToSocket ''s3'', ''error'', JObj [(''message'', JStr ''Failed to mute participant'')])],
      uncaught = None\<rparr> \<and>
   mute_participant bob
     (JObj [(''meetingId'', JStr ''TEAM4242''), (''targetUserId'', JStr ''u1'')]) team_state =
     \<lparr>state = team_state,
      emitted = [(ToSocket ''s2'', ''error'',
                  JObj [(''message'', JStr ''Not authorized to mute participants'')])],
      uncaught = None\<rparr>"
  by (simp add: mute_participant_def mute_participant_body_def try_catch_def throw_def
        done_with_def nullish_def upper_examples findOne_def team_state_def team_meeting_def
        isUserHost_def guest_def bob_def emit_error_def)

subsection \<open>Status updates\<close>




subsection \<open>Guests and the persisted record\<close>

text \<open>
  Claim C10. A join-meeting by a socket that is not authenticated leaves the meetings
  collection exactly as it was, whatever the payload and the state; so a join that
  changes the collection comes from an authenticated socket.
\<close>

theorem guest_join_keeps_record:
  "\<not> isAuthenticated s \<Longrightarrow> db (state (join_meeting s data now st)) = db st"
  by (simp add: join_meeting_def try_catch_state join_body_db_guest)

theorem guest_join_keeps_record_witness:
  "\<not> isAuthenticated guest \<and>
   db (state (join_meeting guest (JObj [(''meetingId'', JStr ''TEAM4242'')]) 7 team_state)) =
     db team_state \<and>
   ''s3'' \<in> rooms (state (join_meeting guest (JObj [(''meetingId'', JStr ''TEAM4242'')]) 7 team_state))
            ''TEAM4242''"
proof -
  have g: "\<not> isAuthenticated guest" by (simp add: guest_def)
  have r: "''s3'' \<in> rooms (state (join_meeting guest (JObj [(''meetingId'', JStr ''TEAM4242'')]) 7 team_state))
            ''TEAM4242''"
    by (simp add: join_meeting_def join_meeting_body_def try_catch_def throw_def done_with_def
          nullish_def upper_examples findOne_def team_state_def team_meeting_def auto_add_def
          guest_def isUserHost_def Let_def)
  show ?thesis
    using g guest_join_keeps_record [OF g, of "JObj [(''meetingId'', JStr ''TEAM4242'')]" 7 team_state] r
    by simp
qed

end
